theory Spec2Isabelle
  imports Complex_Main
begin

section \<open>The swing trading screener: data model\<close>

text \<open>
  The screener table of \<^verbatim>\<open>src/components/ScreenerTab.tsx\<close> scores every row it is given
  with \<^verbatim>\<open>getSwingTradingScore\<close> (the specification's \<^emph>\<open>evaluate\<close>) and renders the rows
  with \<^verbatim>\<open>results.map\<close> (the specification's \<^emph>\<open>rank\<close>).
\<close>

text \<open>
  Modelled from the spec: the interface \<^verbatim>\<open>ScreenerResult\<close> is declared in
  \<^verbatim>\<open>services/IBService\<close>, which is not among the sources. Its fields are the ones of the
  specification's Snapshot (section 3), all of which but \<^verbatim>\<open>symbol\<close> are numbers. The
  specification takes them as real numbers, and says that the caller supplies well-formed
  numeric values; the scoring function only compares them with each other and with
  integer constants, and on such values the comparison of two doubles is the comparison of
  the reals they denote.
\<close>

record ScreenerResult =
  symbol :: string
  price :: real
  change :: real
  changePercent :: real
  volume :: real
  marketCap :: real
  pe :: real
  rsi :: real
  sma20 :: real
  sma50 :: real

text \<open>
  The object returned by \<^verbatim>\<open>getSwingTradingScore\<close>. The score is a sum of a few integer
  constants, so it is an integer.
\<close>

record SwingAnalysis =
  score :: int
  signal :: string
  color :: string

section \<open>The scoring function\<close>

text \<open>
  Lines 54 to 71: the variable \<^verbatim>\<open>score\<close> starts at 50 and is updated by one statement
  after the other; every binding below is one statement of the source, in its order.
\<close>

definition additive_score :: "ScreenerResult \<Rightarrow> int" where
  "additive_score result =
    (let score0 = 50;
         score1 = (if rsi result \<ge> 30 \<and> rsi result \<le> 70 then score0 + 20
                   else if rsi result < 30 then score0 + 30
                   else score0 - 20);
         score2 = (if price result > sma20 result then score1 + 15 else score1);
         score3 = (if price result > sma50 result then score2 + 10 else score2);
         score4 = (if sma20 result > sma50 result then score3 + 15 else score3);
         score5 = (if volume result > 1000000 then score4 + 10
                   else if volume result > 500000 then score4 + 5
                   else score4);
         score6 = (if abs (changePercent result) > 2 then score5 + 10 else score5)
     in score6)"

text \<open>
  Lines 74 to 89: \<^verbatim>\<open>signal\<close> and \<^verbatim>\<open>color\<close> start as \<^verbatim>\<open>'HOLD'\<close> and
  \<^verbatim>\<open>'text-neutral-400'\<close> and are overwritten by the first branch of the chain that matches.
  The strong signal is the string \<^verbatim>\<open>'STRONG BUY'\<close>, with a space.
\<close>

definition determine_signal :: "int \<Rightarrow> string \<times> string" where
  "determine_signal sc =
    (if sc \<ge> 80 then (''STRONG BUY'', ''text-success-400'')
     else if sc \<ge> 65 then (''BUY'', ''text-success-300'')
     else if sc \<le> 35 then (''SELL'', ''text-danger-400'')
     else if sc \<le> 50 then (''WEAK'', ''text-warning-400'')
     else (''HOLD'', ''text-neutral-400''))"

text \<open>
  Line 91: the signal is determined from the score as summed, and only the returned score
  is clamped, by \<^verbatim>\<open>Math.max(0, Math.min(100, score))\<close>.
\<close>

definition getSwingTradingScore :: "ScreenerResult \<Rightarrow> SwingAnalysis" where
  "getSwingTradingScore result =
    (let sc = additive_score result;
         (sig, col) = determine_signal sc
     in \<lparr> score = max 0 (min 100 sc), signal = sig, color = col \<rparr>)"

section \<open>The table rows\<close>

text \<open>
  Lines 235 to 290: \<^verbatim>\<open>results.map((result, index) => ...)\<close> makes one table row for every
  element, from the element, its index (the row's key) and its analysis. The markup of a
  row is left out; a row is what it is built from.
\<close>

record TableRow =
  key :: nat
  row_result :: ScreenerResult
  swingAnalysis :: SwingAnalysis

definition table_rows :: "ScreenerResult list \<Rightarrow> TableRow list" where
  "table_rows results =
    map (\<lambda>(result, index).
          \<lparr> key = index, row_result = result, swingAnalysis = getSwingTradingScore result \<rparr>)
        (zip results [0 ..< length results])"

text \<open>
  The specification's \<^emph>\<open>rank\<close>: the sequence of pairs of a snapshot and its score result
  that the rows show.
\<close>

definition rank :: "ScreenerResult list \<Rightarrow> (ScreenerResult \<times> SwingAnalysis) list" where
  "rank results = map (\<lambda>row. (row_result row, swingAnalysis row)) (table_rows results)"

section \<open>The specification's wording of the algorithm\<close>

text \<open>
  Section 4.1 of the specification gives the score as a base of 50 plus five adjustments,
  clamped, and the signal as a threshold chain on the clamped score. These definitions
  follow that wording; the theorems below compare them with the code.
\<close>

definition spec_rsi_adjustment :: "ScreenerResult \<Rightarrow> int" where
  "spec_rsi_adjustment s =
    (if 30 \<le> rsi s \<and> rsi s \<le> 70 then 20 else if rsi s < 30 then 30 else - 20)"

definition spec_trend_adjustment :: "ScreenerResult \<Rightarrow> int" where
  "spec_trend_adjustment s =
    (if price s > sma20 s then 15 else 0) + (if price s > sma50 s then 10 else 0)
      + (if sma20 s > sma50 s then 15 else 0)"

definition spec_volume_adjustment :: "ScreenerResult \<Rightarrow> int" where
  "spec_volume_adjustment s =
    (if volume s > 1000000 then 10 else if volume s > 500000 then 5 else 0)"

definition spec_volatility_adjustment :: "ScreenerResult \<Rightarrow> int" where
  "spec_volatility_adjustment s = (if abs (changePercent s) > 2.0 then 10 else 0)"

definition spec_clamp :: "int \<Rightarrow> int" where
  "spec_clamp x = (if x < 0 then 0 else if x > 100 then 100 else x)"

definition spec_score :: "ScreenerResult \<Rightarrow> int" where
  "spec_score s =
    spec_clamp (50 + spec_rsi_adjustment s + spec_trend_adjustment s
                  + spec_volume_adjustment s + spec_volatility_adjustment s)"

text \<open>The specification's names of the signals, as the strings the code returns.\<close>

definition STRONG_BUY :: string where "STRONG_BUY = ''STRONG BUY''"
definition BUY :: string where "BUY = ''BUY''"
definition HOLD :: string where "HOLD = ''HOLD''"
definition WEAK :: string where "WEAK = ''WEAK''"
definition SELL :: string where "SELL = ''SELL''"

definition spec_classify :: "int \<Rightarrow> string" where
  "spec_classify sc =
    (if sc \<ge> 80 then STRONG_BUY
     else if sc \<ge> 65 then BUY
     else if sc \<le> 35 then SELL
     else if sc \<le> 50 then WEAK
     else HOLD)"

section \<open>The examples of the specification\<close>

definition example1 :: ScreenerResult where
  "example1 = \<lparr> symbol = ''EX1'', price = 110, change = 3.7, changePercent = 3.5,
     volume = 2000000, marketCap = 5000000000, pe = 18, rsi = 45, sma20 = 100, sma50 = 95 \<rparr>"

definition example2 :: ScreenerResult where
  "example2 = \<lparr> symbol = ''EX2'', price = 90, change = 0.45, changePercent = 0.5,
     volume = 100000, marketCap = 800000000, pe = 25, rsi = 75, sma20 = 95, sma50 = 100 \<rparr>"

definition example3 :: ScreenerResult where
  "example3 = \<lparr> symbol = ''EX3'', price = 50, change = 0.5, changePercent = 1.0,
     volume = 600000, marketCap = 1200000000, pe = - 4, rsi = 25, sma20 = 48, sma50 = 52 \<rparr>"

text \<open>A snapshot whose additive score is 60: overbought, above its 20-period average only,
  traded moderately and volatile.\<close>

definition example4 :: ScreenerResult where
  "example4 = \<lparr> symbol = ''EX4'', price = 100, change = 2.9, changePercent = 3,
     volume = 600000, marketCap = 900000000, pe = 30, rsi = 75, sma20 = 95, sma50 = 105 \<rparr>"

text \<open>The first example under another symbol and with other values in the fields that the
  scoring does not read.\<close>

definition example1_renamed :: ScreenerResult where
  "example1_renamed = \<lparr> symbol = ''OTHER'', price = 110, change = - 1, changePercent = 3.5,
     volume = 2000000, marketCap = 1, pe = - 7, rsi = 45, sma20 = 100, sma50 = 95 \<rparr>"

section \<open>Properties of the additive score\<close>

lemmas signal_names = STRONG_BUY_def BUY_def HOLD_def WEAK_def SELL_def

lemmas examples = example1_def example2_def example3_def example4_def example1_renamed_def

lemma additive_score_sum:
  "additive_score r =
    50 + spec_rsi_adjustment r + spec_trend_adjustment r
       + spec_volume_adjustment r + spec_volatility_adjustment r"
  by (simp add: additive_score_def spec_rsi_adjustment_def spec_trend_adjustment_def
      spec_volume_adjustment_def spec_volatility_adjustment_def)

lemma rsi_adjustment_cases:
  "spec_rsi_adjustment r = 20 \<or> spec_rsi_adjustment r = 30 \<or> spec_rsi_adjustment r = - 20"
  by (simp add: spec_rsi_adjustment_def)

lemma trend_adjustment_cases:
  "spec_trend_adjustment r \<in> {0, 10, 15, 25, 30, 40}"
  by (simp add: spec_trend_adjustment_def)

lemma volume_adjustment_cases:
  "spec_volume_adjustment r = 0 \<or> spec_volume_adjustment r = 5 \<or> spec_volume_adjustment r = 10"
  by (simp add: spec_volume_adjustment_def)

lemma volatility_adjustment_cases:
  "spec_volatility_adjustment r = 0 \<or> spec_volatility_adjustment r = 10"
  by (simp add: spec_volatility_adjustment_def)

lemma additive_score_lower: "30 \<le> additive_score r"
  using rsi_adjustment_cases [of r] trend_adjustment_cases [of r]
    volume_adjustment_cases [of r] volatility_adjustment_cases [of r]
  unfolding additive_score_sum by auto

lemma additive_score_upper: "additive_score r \<le> 140"
  using rsi_adjustment_cases [of r] trend_adjustment_cases [of r]
    volume_adjustment_cases [of r] volatility_adjustment_cases [of r]
  unfolding additive_score_sum by auto

lemma rsi_adjustment_dvd: "5 dvd spec_rsi_adjustment r"
  by (simp add: spec_rsi_adjustment_def)

lemma trend_adjustment_dvd: "5 dvd spec_trend_adjustment r"
  by (simp add: spec_trend_adjustment_def)

lemma volume_adjustment_dvd: "5 dvd spec_volume_adjustment r"
  by (simp add: spec_volume_adjustment_def)

lemma volatility_adjustment_dvd: "5 dvd spec_volatility_adjustment r"
  by (simp add: spec_volatility_adjustment_def)

lemma additive_score_dvd: "5 dvd additive_score r"
  unfolding additive_score_sum
  by (intro dvd_add rsi_adjustment_dvd trend_adjustment_dvd volume_adjustment_dvd
      volatility_adjustment_dvd) simp

lemma score_eq: "score (getSwingTradingScore r) = max 0 (min 100 (additive_score r))"
  by (simp add: getSwingTradingScore_def Let_def split: prod.split)

lemma score_min: "score (getSwingTradingScore r) = min 100 (additive_score r)"
  using additive_score_lower [of r] by (simp add: score_eq)

lemma signal_eq: "signal (getSwingTradingScore r) = fst (determine_signal (additive_score r))"
  by (simp add: getSwingTradingScore_def Let_def split: prod.split)

lemma color_eq: "color (getSwingTradingScore r) = snd (determine_signal (additive_score r))"
  by (simp add: getSwingTradingScore_def Let_def split: prod.split)

lemma fst_determine_signal: "fst (determine_signal sc) = spec_classify sc"
  by (simp add: determine_signal_def spec_classify_def signal_names)

lemma spec_classify_min: "spec_classify (min 100 sc) = spec_classify sc"
  by (simp add: spec_classify_def min_def)

lemma example_scores:
  "additive_score example1 = 130" "additive_score example2 = 30"
  "additive_score example3 = 100" "additive_score example4 = 60"
  by (simp_all add: additive_score_def examples)

lemma spec_examples:
  "score (getSwingTradingScore example1) = 100"
  "signal (getSwingTradingScore example1) = ''STRONG BUY''"
  "score (getSwingTradingScore example2) = 30"
  "signal (getSwingTradingScore example2) = ''SELL''"
  "score (getSwingTradingScore example3) = 100"
  "signal (getSwingTradingScore example3) = ''STRONG BUY''"
  by (simp_all add: score_eq signal_eq example_scores determine_signal_def)

section \<open>The score\<close>

text \<open>
  C1. For every snapshot, the returned score is the clamp to the interval from 0 to 100 of
  50 plus the rsi adjustment (20 when rsi is between 30 and 70, both included; otherwise 30
  when rsi is below 30; otherwise -20), plus 15 when the price is above sma20, plus 10 when
  it is above sma50, plus 15 when sma20 is above sma50, plus the first matching volume
  bracket (10 above 1,000,000, 5 above 500,000), plus 10 when the absolute value of
  changePercent is above 2.
\<close>

theorem score_is_spec_score:
  "score (getSwingTradingScore s) = spec_score s"
  by (simp add: score_eq additive_score_sum spec_score_def spec_clamp_def)

text \<open>
  C3. For every snapshot, the returned score lies between 0 and 100, both included.
\<close>

theorem score_bounded:
  "0 \<le> score (getSwingTradingScore s) \<and> score (getSwingTradingScore s) \<le> 100"
  by (simp add: score_eq)

text \<open>
  C9. For every snapshot, the sum before the clamp is at least 30 and at most 140, so the
  lower clamp never takes effect: the returned score is the smaller of 100 and the sum, and
  it is a multiple of 5 between 30 and 100.
\<close>

theorem score_multiple_of_5_from_30:
  "30 \<le> additive_score s \<and> additive_score s \<le> 140
    \<and> score (getSwingTradingScore s) = min 100 (additive_score s)
    \<and> 5 dvd score (getSwingTradingScore s)
    \<and> 30 \<le> score (getSwingTradingScore s) \<and> score (getSwingTradingScore s) \<le> 100"
proof -
  have "5 dvd min 100 (additive_score s)"
    using additive_score_dvd [of s] by (simp add: min_def)
  then show ?thesis
    using additive_score_lower [of s] additive_score_upper [of s]
    by (simp add: score_min)
qed

section \<open>The signal\<close>

text \<open>
  C2. For every snapshot, the returned signal is one of STRONG_BUY, BUY, HOLD, WEAK and
  SELL, and applying the threshold chain (at least 80, else at least 65, else at most 35,
  else at most 50, else the default) to the returned, clamped score gives the returned
  signal again. The code runs the chain on the sum before the clamp; the two agree because
  the sum is never negative and every sum above 100 is, like 100, at least 80.
\<close>

theorem signal_consistent_with_returned_score:
  "signal (getSwingTradingScore s) \<in> {STRONG_BUY, BUY, HOLD, WEAK, SELL}
    \<and> signal (getSwingTradingScore s) = spec_classify (score (getSwingTradingScore s))"
proof -
  have "signal (getSwingTradingScore s) = spec_classify (additive_score s)"
    by (simp add: signal_eq fst_determine_signal)
  then have eq: "signal (getSwingTradingScore s) = spec_classify (score (getSwingTradingScore s))"
    by (simp add: score_min spec_classify_min)
  have "spec_classify (additive_score s) \<in> {STRONG_BUY, BUY, HOLD, WEAK, SELL}"
    by (simp add: spec_classify_def)
  with eq show ?thesis
    by (simp add: signal_eq fst_determine_signal)
qed

text \<open>
  C4. For every snapshot whose additive score is strictly between 50 and 65, the returned
  signal is the default, HOLD: no branch of the chain matches.
\<close>

theorem gap_gives_hold:
  assumes "50 < additive_score s" and "additive_score s < 65"
  shows "signal (getSwingTradingScore s) = ''HOLD''"
  using assms by (simp add: signal_eq determine_signal_def)

theorem gap_gives_hold_witness:
  "additive_score example4 = 60 \<and> signal (getSwingTradingScore example4) = ''HOLD''"
proof -
  have lo: "50 < additive_score example4" by (simp add: example_scores)
  have hi: "additive_score example4 < 65" by (simp add: example_scores)
  show ?thesis using gap_gives_hold [OF lo hi] by (simp add: example_scores)
qed

text \<open>
  C10. For every snapshot, the signal SELL is returned only when rsi is above 70: when rsi
  is at most 70 the rsi bracket adds at least 20, so the sum and the returned score are at
  least 70, and the SELL branch (at most 35) is not reached.
\<close>

theorem sell_only_if_overbought:
  "(signal (getSwingTradingScore s) = ''SELL'' \<longrightarrow> 70 < rsi s)
    \<and> (rsi s \<le> 70 \<longrightarrow> 70 \<le> additive_score s \<and> 70 \<le> score (getSwingTradingScore s))"
proof -
  have low: "70 \<le> additive_score s" if "rsi s \<le> 70"
  proof -
    from that have "20 \<le> spec_rsi_adjustment s"
      by (simp add: spec_rsi_adjustment_def)
    then show ?thesis
      using trend_adjustment_cases [of s] volume_adjustment_cases [of s]
        volatility_adjustment_cases [of s]
      unfolding additive_score_sum by auto
  qed
  have "70 < rsi s" if "signal (getSwingTradingScore s) = ''SELL''"
  proof (rule ccontr)
    assume "\<not> 70 < rsi s"
    then have "70 \<le> additive_score s" using low by simp
    then have "signal (getSwingTradingScore s) \<noteq> ''SELL''"
      by (simp add: signal_eq determine_signal_def)
    with that show False by simp
  qed
  with low show ?thesis by (simp add: score_min)
qed

theorem sell_only_if_overbought_witness:
  "signal (getSwingTradingScore example2) = ''SELL'' \<and> 70 < rsi example2
    \<and> rsi example1 \<le> 70 \<and> 70 \<le> additive_score example1
    \<and> 70 \<le> score (getSwingTradingScore example1)"
proof -
  have sell: "signal (getSwingTradingScore example2) = ''SELL''"
    by (simp add: spec_examples)
  have healthy: "rsi example1 \<le> 70"
    by (simp add: example1_def)
  show ?thesis
    using sell healthy sell_only_if_overbought [of example2] sell_only_if_overbought [of example1]
    by simp
qed

section \<open>Relations between evaluations\<close>

text \<open>
  C5. With every other field of the snapshot fixed, raising the price from a value that is
  not above sma20 to a value that is above sma20 does not decrease the returned score.
\<close>

theorem trend_bonus_monotonic:
  assumes "p \<le> sma20 s" and "sma20 s < p'"
  shows "score (getSwingTradingScore (s\<lparr>price := p\<rparr>))
          \<le> score (getSwingTradingScore (s\<lparr>price := p'\<rparr>))"
proof -
  have "spec_trend_adjustment (s\<lparr>price := p\<rparr>) \<le> spec_trend_adjustment (s\<lparr>price := p'\<rparr>)"
    using assms by (simp add: spec_trend_adjustment_def)
  then have "additive_score (s\<lparr>price := p\<rparr>) \<le> additive_score (s\<lparr>price := p'\<rparr>)"
    by (simp add: additive_score_sum spec_rsi_adjustment_def spec_volume_adjustment_def
        spec_volatility_adjustment_def)
  then show ?thesis by (simp add: score_eq)
qed

theorem trend_bonus_monotonic_witness:
  "(90::real) \<le> sma20 example2 \<and> sma20 example2 < 96
    \<and> score (getSwingTradingScore (example2\<lparr>price := 90\<rparr>)) = 30
    \<and> score (getSwingTradingScore (example2\<lparr>price := 96\<rparr>)) = 45"
proof -
  have below: "(90::real) \<le> sma20 example2" by (simp add: example2_def)
  have above: "sma20 example2 < (96::real)" by (simp add: example2_def)
  have "additive_score (example2\<lparr>price := 90\<rparr>) = 30"
    by (simp add: additive_score_def example2_def)
  moreover have "additive_score (example2\<lparr>price := 96\<rparr>) = 45"
    by (simp add: additive_score_def example2_def)
  ultimately show ?thesis
    using below above trend_bonus_monotonic [OF below above]
    by (simp add: score_eq)
qed

text \<open>
  C7. The evaluation is a function of the snapshot alone, and of it the result depends
  only on the six fields rsi, price, sma20, sma50, volume and changePercent: two snapshots
  that agree on them, whatever their symbols and other fields, get the same score, signal
  and colour. In particular two evaluations of one snapshot give one result.
\<close>

theorem evaluate_deterministic:
  assumes "rsi a = rsi b" and "price a = price b" and "sma20 a = sma20 b"
    and "sma50 a = sma50 b" and "volume a = volume b"
    and "changePercent a = changePercent b"
  shows "getSwingTradingScore a = getSwingTradingScore b"
proof -
  have "additive_score a = additive_score b"
    using assms by (simp add: additive_score_def)
  then show ?thesis by (simp add: getSwingTradingScore_def)
qed

theorem evaluate_deterministic_witness:
  "symbol example1 \<noteq> symbol example1_renamed \<and> pe example1 \<noteq> pe example1_renamed
    \<and> getSwingTradingScore example1 = getSwingTradingScore example1_renamed"
proof -
  have "getSwingTradingScore example1 = getSwingTradingScore example1_renamed"
    by (rule evaluate_deterministic) (simp_all add: example1_def example1_renamed_def)
  then show ?thesis by (simp add: example1_def example1_renamed_def)
qed

section \<open>The ranked sequence\<close>

lemma map_fst_zip_indices: "map fst (zip xs [0 ..< length xs]) = xs"
  by (rule map_fst_zip) simp

lemma rank_eq: "rank xs = map (\<lambda>x. (x, getSwingTradingScore x)) xs"
proof -
  have "rank xs = map (\<lambda>p. (fst p, getSwingTradingScore (fst p))) (zip xs [0 ..< length xs])"
    by (simp add: rank_def table_rows_def comp_def case_prod_beta)
  also have "\<dots> = map (\<lambda>x. (x, getSwingTradingScore x)) (map fst (zip xs [0 ..< length xs]))"
    by (simp only: map_map comp_def)
  also have "\<dots> = map (\<lambda>x. (x, getSwingTradingScore x)) xs"
    by (simp only: map_fst_zip_indices)
  finally show ?thesis .
qed

text \<open>
  C6. For every input sequence, the ranked sequence has the length of the input, holds the
  snapshots of the input in the order of the input (so their symbols too), each paired with
  its own score result: nothing is reordered by score.
\<close>

theorem rank_preserves_order:
  "length (rank xs) = length xs
    \<and> map fst (rank xs) = xs
    \<and> map (\<lambda>p. symbol (fst p)) (rank xs) = map symbol xs
    \<and> map snd (rank xs) = map getSwingTradingScore xs"
  by (simp add: rank_eq comp_def)

text \<open>
  C8. The ranked sequence of the empty sequence of snapshots is the empty sequence; the
  mapping has no error to return.
\<close>

theorem rank_empty: "rank [] = []"
  by (simp add: rank_def table_rows_def)

end
